theory Spec2Isabelle
  imports Main
begin

section \<open>Bytes, errors and the log\<close>

text \<open>
  A Go \<open>string\<close> and a \<open>[]byte\<close> are sequences of bytes: both are \<^typ>\<open>string\<close>
  here, a list of 8-bit \<^typ>\<open>char\<close>.
  \<^verbatim>\<open>
  const terminationCharacter = '\x0a'
  const messageBufferSize = 128
  \<close>
\<close>

definition terminationCharacter :: char where
  "terminationCharacter = CHR 0x0A"

definition messageBufferSize :: nat where
  "messageBufferSize = 128"

text \<open>
  The error values of the program: the two it creates itself with \<open>errors.New\<close>, and the
  errors its libraries hand to it (\<open>io.EOF\<close>, and any other, carried by its text).
\<close>

datatype error =
    ErrOversizedMessage
  | ErrInvalidStatusMessage
  | ErrEOF
  | ErrIO string

text \<open>
  The global zap logger. An entry is the level, the message and the fields of one call of
  \<open>zap.L().Debug/Info/Error/Fatal\<close>. \<open>initLogger\<close> sets the level to \<open>InfoLevel\<close> unless
  the flag \<open>-v\<close> is given, so that a \<open>Debug\<close> call leaves an entry only when verbose.
  \<open>zap.Error(err)\<close> with a nil \<open>err\<close> is \<open>zError None\<close>.
  A function of the model returns the entries it emits, in order; the caller appends them.
\<close>

datatype level = DebugLevel | InfoLevel | ErrorLevel | FatalLevel

datatype field =
    zString string string
  | zInt string int
  | zInt64 string int
  | zError "error option"

type_synonym entry = "level \<times> string \<times> field list"

definition zlog :: "bool \<Rightarrow> level \<Rightarrow> string \<Rightarrow> field list \<Rightarrow> entry list" where
  "zlog verbosity l msg fs = (if l = DebugLevel \<and> \<not> verbosity then [] else [(l, msg, fs)])"

section \<open>The byte-stream source\<close>

text \<open>
  An \<open>io.Reader\<close> is modelled by what its successive \<open>Read\<close> calls find: a list of
  chunks, each the bytes available to one call together with the error the call returns
  (\<open>None\<close> for nil). \<open>Read\<close> into a buffer of \<open>cap\<close> bytes returns at most \<open>cap\<close> bytes:
  of a longer chunk it takes the first \<open>cap\<close> bytes without error and leaves the rest
  (and the chunk's error) for the next call, as \<open>bufio.Reader\<close> and \<open>bytes.Reader\<close> do.
  A source with no chunk left is at its end: \<open>Read\<close> returns 0 bytes and \<open>io.EOF\<close>.
\<close>

type_synonym chunk = "string \<times> error option"
type_synonym Reader = "chunk list"

fun Read :: "Reader \<Rightarrow> nat \<Rightarrow> (string \<times> error option) \<times> Reader" where
  "Read [] cap = (([], Some ErrEOF), [])"
| "Read ((d, e) # rest) cap =
     (if cap < length d then ((take cap d, None), (drop cap d, e) # rest)
      else ((d, e), rest))"

section \<open>Message Framer: \<open>readMessage\<close>\<close>

text \<open>
  The scanning loop of \<open>readMessage\<close>
  \<^verbatim>\<open>
  for i := 0; i < n; i++ {
      if buffer[i] == terminationCharacter {
          zap.L().Debug("found termination character", zap.Int("index", i))
          break
      }
      outputBuffer = append(outputBuffer, buffer[i])
  }
  \<close>
  runs over \<open>buffer[0..n)\<close>, given here as a list, with the index \<open>i\<close> and the
  \<open>outputBuffer\<close> collected so far. It returns the final \<open>outputBuffer\<close> and the entries
  logged.
\<close>

fun scanBuffer :: "bool \<Rightarrow> string \<Rightarrow> nat \<Rightarrow> string \<Rightarrow> string \<times> entry list" where
  "scanBuffer v [] i outputBuffer = (outputBuffer, [])"
| "scanBuffer v (b # bs) i outputBuffer =
     (if b = terminationCharacter
      then (outputBuffer, zlog v DebugLevel ''found termination character'' [zInt ''index'' (int i)])
      else scanBuffer v bs (Suc i) (outputBuffer @ [b]))"

text \<open>
  \<^verbatim>\<open>
  func readMessage(r io.Reader) (string, error) {
      buffer := make([]byte, messageBufferSize)
      outputBuffer := make([]byte, 0, messageBufferSize)
      n, err := r.Read(buffer)
      if err != nil {
          zap.L().Error("failed to read message", zap.Error(err))
          return "", err
      }
      for ... (above)
      if len(outputBuffer) >= messageBufferSize {
          zap.L().Error("failed to read message", zap.Error(err))
          return "", errors.New("oversized message")
      }
      return string(outputBuffer), nil
  }
  \<close>
  The buffer is 128 zero bytes, of which the read overwrites the first \<open>n\<close>. The result is
  the error or the frame, the source after the read, and the entries logged.
\<close>

definition readMessage :: "bool \<Rightarrow> Reader \<Rightarrow> (error + string) \<times> Reader \<times> entry list" where
  "readMessage v r =
     (case Read r messageBufferSize of ((d, err), r') \<Rightarrow>
        let n = length d;
            buffer = d @ replicate (messageBufferSize - n) (CHR 0x00)
        in (case err of
              Some e \<Rightarrow> (Inl e, r', zlog v ErrorLevel ''failed to read message'' [zError (Some e)])
            | None \<Rightarrow>
               (case scanBuffer v (take n buffer) 0 [] of (outputBuffer, lg) \<Rightarrow>
                  if messageBufferSize \<le> length outputBuffer
                  then (Inl ErrOversizedMessage, r',
                        lg @ zlog v ErrorLevel ''failed to read message'' [zError None])
                  else (Inr outputBuffer, r', lg))))"

section \<open>The string functions of the Go library\<close>

text \<open>
  \<open>strings.Split(s, " ")\<close> cuts \<open>s\<close> at every occurrence of the separator, here the one
  byte \<open>sep\<close>, and returns the pieces between them: one more piece than there are
  separators, the empty string giving one empty piece.
\<close>

fun Split :: "string \<Rightarrow> char \<Rightarrow> string list" where
  "Split [] sep = [[]]"
| "Split (c # cs) sep =
     (if c = sep then [] # Split cs sep
      else (case Split cs sep of [] \<Rightarrow> [[c]] | t # ts \<Rightarrow> (c # t) # ts))"

text \<open>
  \<open>strings.ToUpper\<close>, \<open>strings.ToLower\<close> and \<open>strings.TrimSpace\<close> work byte by byte as
  long as every byte they meet is ASCII (below \<open>utf8.RuneSelf = 0x80\<close>), and go through
  the Unicode tables otherwise. The tables are not part of the program: the four library
  calls that consult them are parameters of the model.
\<close>

record unicode =
  mapToUpper :: "string \<Rightarrow> string"  \<comment> \<open>\<open>strings.Map(unicode.ToUpper, s)\<close>\<close>
  mapToLower :: "string \<Rightarrow> string"  \<comment> \<open>\<open>strings.Map(unicode.ToLower, s)\<close>\<close>
  trimFuncSpace :: "string \<Rightarrow> string"  \<comment> \<open>\<open>strings.TrimFunc(s, unicode.IsSpace)\<close>\<close>
  trimRightFuncSpace :: "string \<Rightarrow> string"  \<comment> \<open>\<open>strings.TrimRightFunc(s, unicode.IsSpace)\<close>\<close>

definition isASCII :: "char \<Rightarrow> bool" where
  "isASCII c = ((of_char c :: nat) < 0x80)"

definition isLowerByte :: "char \<Rightarrow> bool" where
  "isLowerByte c = ((of_char (CHR ''a'') :: nat) \<le> of_char c \<and> (of_char c :: nat) \<le> of_char (CHR ''z''))"

definition isUpperByte :: "char \<Rightarrow> bool" where
  "isUpperByte c = ((of_char (CHR ''A'') :: nat) \<le> of_char c \<and> (of_char c :: nat) \<le> of_char (CHR ''Z''))"

text \<open>\<open>c -= 'a' - 'A'\<close> on a lower-case byte, \<open>c += 'a' - 'A'\<close> on an upper-case one.\<close>

definition upperByte :: "char \<Rightarrow> char" where
  "upperByte c = (if isLowerByte c then char_of ((of_char c :: nat) - 32) else c)"

definition lowerByte :: "char \<Rightarrow> char" where
  "lowerByte c = (if isUpperByte c then char_of ((of_char c :: nat) + 32) else c)"

definition ToUpper :: "unicode \<Rightarrow> string \<Rightarrow> string" where
  "ToUpper U s =
     (if list_all isASCII s
      then (if list_ex isLowerByte s then map upperByte s else s)
      else mapToUpper U s)"

definition ToLower :: "unicode \<Rightarrow> string \<Rightarrow> string" where
  "ToLower U s =
     (if list_all isASCII s
      then (if list_ex isUpperByte s then map lowerByte s else s)
      else mapToLower U s)"

text \<open>
  The table \<open>asciiSpace\<close> of package strings: \<open>'\t'\<close>, \<open>'\n'\<close>, \<open>'\v'\<close>, \<open>'\f'\<close>, \<open>'\r'\<close>
  and \<open>' '\<close>.
\<close>

definition asciiSpace :: "char \<Rightarrow> bool" where
  "asciiSpace c = (c \<in> set [CHR 0x09, CHR 0x0A, CHR 0x0B, CHR 0x0C, CHR 0x0D, CHR 0x20])"

text \<open>
  \<open>strings.TrimSpace\<close> moves \<open>start\<close> forward over ASCII space bytes, then \<open>stop\<close>
  backward; either loop hands over to the Unicode function as soon as it meets a byte that
  is not ASCII. \<open>skipSpace\<close> is one such loop: it returns what is left of its argument,
  and says whether it stopped at a non-ASCII byte. The backward loop is the same loop on
  the reversed string.
\<close>

datatype skipped = NonASCII string | Skipped string

fun skipSpace :: "string \<Rightarrow> skipped" where
  "skipSpace [] = Skipped []"
| "skipSpace (c # cs) =
     (if \<not> isASCII c then NonASCII (c # cs)
      else if asciiSpace c then skipSpace cs
      else Skipped (c # cs))"

definition TrimSpace :: "unicode \<Rightarrow> string \<Rightarrow> string" where
  "TrimSpace U s =
     (case skipSpace s of
        NonASCII t \<Rightarrow> trimFuncSpace U t
      | Skipped t \<Rightarrow>
          (case skipSpace (rev t) of
             NonASCII u \<Rightarrow> trimRightFuncSpace U (rev u)
           | Skipped u \<Rightarrow> rev u))"

text \<open>
  \<open>fmt.Sprintf("%d", n)\<close> for an integer: the decimal digits, after a minus sign when
  negative.
\<close>

fun showNat :: "nat \<Rightarrow> string" where
  "showNat n =
     (if n < 10 then [char_of (48 + n)]
      else showNat (n div 10) @ [char_of (48 + n mod 10)])"

declare showNat.simps [simp del]

definition showInt :: "int \<Rightarrow> string" where
  "showInt i = (if i < 0 then CHR ''-'' # showNat (nat (- i)) else showNat (nat i))"

section \<open>Status Parser: \<open>getState\<close>\<close>

text \<open>
  \<^verbatim>\<open>
  func getState(r io.Reader) (string, error) {
      statusLine, err := readMessage(r)
      if err != nil {
          return "", err
      }
      tokens := strings.Split(statusLine, " ")
      if len(tokens) != 2 {
          zap.L().Error("unexpected number of tokens", zap.String("message", statusLine))
          return "", errInvalidStatusMessage
      }
      if strings.ToUpper(tokens[0]) != "STATE:" {
          zap.L().Error("unexpected message key", zap.String("message", statusLine),
                        zap.String("key", tokens[0]))
          return "", errInvalidStatusMessage
      }
      return strings.ToLower(strings.TrimSpace(tokens[1])), nil
  }
  \<close>
\<close>

definition getState :: "unicode \<Rightarrow> bool \<Rightarrow> Reader \<Rightarrow> (error + string) \<times> Reader \<times> entry list" where
  "getState U v r =
     (case readMessage v r of
        (Inl err, r', lg) \<Rightarrow> (Inl err, r', lg)
      | (Inr statusLine, r', lg) \<Rightarrow>
          let tokens = Split statusLine (CHR '' '') in
          if length tokens \<noteq> 2
          then (Inl ErrInvalidStatusMessage, r',
                lg @ zlog v ErrorLevel ''unexpected number of tokens''
                       [zString ''message'' statusLine])
          else if ToUpper U (tokens ! 0) \<noteq> ''STATE:''
          then (Inl ErrInvalidStatusMessage, r',
                lg @ zlog v ErrorLevel ''unexpected message key''
                       [zString ''message'' statusLine, zString ''key'' (tokens ! 0)])
          else (Inr (ToLower U (TrimSpace U (tokens ! 1))), r', lg))"

section \<open>Transfer Protocol Driver: \<open>main\<close>\<close>

text \<open>
  What \<open>main\<close> finds outside the program, one field for each call that leaves it:
  the flags; the results of \<open>net.ResolveTCPAddr\<close> (the text of the address), \<open>os.Stat\<close>
  (the size), \<open>os.Open\<close> (the bytes the file yields when it is read to its end) and
  \<open>net.DialTCP\<close> (what the connection will deliver to \<open>Read\<close>), each \<open>None\<close> when
  the call returns an error; and the error, if any, of each operation on the buffered
  writer \<open>w\<close>. \<open>io.Copy\<close> fails either reading the file or writing to the connection:
  \<open>copyFault = Some (k, e)\<close> is a copy that stops with error \<open>e\<close> after \<open>k\<close> bytes.
  The writer buffers: when \<open>main\<close> returns before a successful \<open>Flush\<close>, only the
  first \<open>onWire\<close> bytes of those handed to \<open>w\<close> have reached the connection.
\<close>

record env =
  verbosity :: bool
  inputFile :: string
  serverAddress :: string
  resolveTCPAddr :: "string option"
  stat :: "int option"
  openFile :: "string option"
  dialTCP :: "Reader option"
  headerFault :: "error option"
  copyFault :: "(nat \<times> error) option"
  terminatorFault :: "error option"
  flushFault :: "error option"
  onWire :: nat

text \<open>
  What a run leaves behind: the exit status of the process (0 when \<open>main\<close> returns,
  1 when \<open>zap.L().Fatal\<close> calls \<open>os.Exit(1)\<close>), the log, the bytes written to the
  connection, whether \<open>flag.PrintDefaults\<close> ran, and whether the deferred
  \<open>input.Close()\<close> and \<open>conn.Close()\<close> ran.
\<close>

record result =
  exitStatus :: nat
  logged :: "entry list"
  wire :: string
  usagePrinted :: bool
  inputClosed :: bool
  connClosed :: bool

text \<open>
  Lines 75 to 121 of \<open>main\<close>, from the creation of the buffered reader and writer to
  the last line: the entries logged, the bytes handed to the writer \<open>w\<close>, and whether
  \<open>w.Flush()\<close> succeeded. Every \<open>return\<close> of the source is one branch.
  \<^verbatim>\<open>
  state, err := getState(r)
  if err != nil { return }
  zap.L().Debug("received state", zap.String("state", state))
  if state != "init" {
      zap.L().Error("cannot start outside of init state", zap.String("state", state))
      return
  }
  header := fmt.Sprintf("GCODE: %s:%d\n", inputFile, fileInfo.Size())
  zap.L().Debug("sending header", zap.String("header", header))
  if _, err := w.Write([]byte(header)); err != nil {
      zap.L().Error("failed sending header", zap.Error(err)); return
  }
  zap.L().Debug("sending gcode", zap.Int64("size", fileInfo.Size()))
  n, err := io.Copy(w, input)
  if err != nil {
      zap.L().Error("failed sending file over connection", zap.Error(err),
                    zap.Int64("size", fileInfo.Size())); return
  }
  zap.L().Debug("sent gcode", zap.Int64("size", n))
  if err := w.WriteByte(terminationCharacter); err != nil {
      zap.L().Error("failed sending termination signal", zap.Error(err)); return
  }
  zap.L().Debug("flushing")
  if err := w.Flush(); err != nil {
      zap.L().Error("failed flushing connection", zap.Error(err)); return
  }
  if msg, err := readMessage(r); err != nil {
      return
  } else if msg != "GCODE_ACK" {
      zap.L().Error("did not receive ack", zap.String("message", msg)); return
  }
  zap.L().Info("done")
  \<close>
\<close>

definition transfer :: "unicode \<Rightarrow> env \<Rightarrow> int \<Rightarrow> string \<Rightarrow> Reader \<Rightarrow> entry list \<times> string \<times> bool" where
  "transfer U E fsize input r =
     (let v = verbosity E;
          lg0 = zlog v DebugLevel ''connected'' []
      in case getState U v r of
        (Inl err, r1, lg1) \<Rightarrow> (lg0 @ lg1, [], False)
      | (Inr state, r1, lg1) \<Rightarrow>
         let lg2 = lg0 @ lg1 @ zlog v DebugLevel ''received state'' [zString ''state'' state] in
         if state \<noteq> ''init''
         then (lg2 @ zlog v ErrorLevel ''cannot start outside of init state''
                       [zString ''state'' state], [], False)
         else
         let header = ''GCODE: '' @ inputFile E @ '':'' @ showInt fsize @ [CHR 0x0A];
             lg3 = lg2 @ zlog v DebugLevel ''sending header'' [zString ''header'' header]
         in case headerFault E of
           Some e \<Rightarrow> (lg3 @ zlog v ErrorLevel ''failed sending header'' [zError (Some e)],
                      header, False)
         | None \<Rightarrow>
            let lg4 = lg3 @ zlog v DebugLevel ''sending gcode'' [zInt64 ''size'' fsize]
            in case copyFault E of
              Some (k, e) \<Rightarrow>
                (lg4 @ zlog v ErrorLevel ''failed sending file over connection''
                         [zError (Some e), zInt64 ''size'' fsize],
                 header @ take k input, False)
            | None \<Rightarrow>
               let n = int (length input);
                   lg5 = lg4 @ zlog v DebugLevel ''sent gcode'' [zInt64 ''size'' n]
               in case terminatorFault E of
                 Some e \<Rightarrow>
                   (lg5 @ zlog v ErrorLevel ''failed sending termination signal'' [zError (Some e)],
                    header @ input, False)
               | None \<Rightarrow>
                  let lg6 = lg5 @ zlog v DebugLevel ''flushing'' [];
                      out = header @ input @ [terminationCharacter]
                  in case flushFault E of
                    Some e \<Rightarrow>
                      (lg6 @ zlog v ErrorLevel ''failed flushing connection'' [zError (Some e)],
                       out, False)
                  | None \<Rightarrow>
                     (case readMessage v r1 of
                        (Inl err, r2, lg7) \<Rightarrow> (lg6 @ lg7, out, True)
                      | (Inr msg, r2, lg7) \<Rightarrow>
                          if msg \<noteq> ''GCODE_ACK''
                          then (lg6 @ lg7 @ zlog v ErrorLevel ''did not receive ack''
                                               [zString ''message'' msg], out, True)
                          else (lg6 @ lg7 @ zlog v InfoLevel ''done'' [], out, True)))"

text \<open>
  Lines 45 to 74 of \<open>main\<close>, and its return. \<open>zap.L().Fatal\<close> logs and exits with
  status 1 before any \<open>defer\<close> is registered; every later failure logs and returns from
  \<open>main\<close>, which runs the deferred calls and ends the process with status 0.
  \<^verbatim>\<open>
  addr, err := net.ResolveTCPAddr("tcp", serverAddress+":6280")
  if err != nil {
      flag.PrintDefaults()
      zap.L().Fatal("Could not resolve input address", zap.String("address", serverAddress))
  }
  fileInfo, err := os.Stat(inputFile)
  if err != nil {
      flag.PrintDefaults()
      zap.L().Fatal("Could not find input file", zap.String("file", inputFile))
  }
  input, err := os.Open(inputFile)
  if err != nil {
      flag.PrintDefaults()
      zap.L().Fatal("Could not open input file", zap.String("file", inputFile))
  }
  defer input.Close()
  zap.L().Info("sending gcode file", zap.String("file", inputFile),
               zap.String("address", serverAddress))
  zap.L().Debug("connecting", zap.String("address", addr.String()))
  conn, err := net.DialTCP("tcp", nil, addr)
  if err != nil {
      zap.L().Error("failed to connect to server", zap.String("address", addr.String()))
      return
  }
  defer conn.Close()
  r := bufio.NewReader(conn)
  w := bufio.NewWriter(conn)
  \<close>
\<close>

definition fatal :: "bool \<Rightarrow> string \<Rightarrow> field list \<Rightarrow> result" where
  "fatal v msg fs =
     \<lparr>exitStatus = 1, logged = zlog v FatalLevel msg fs, wire = [],
      usagePrinted = True, inputClosed = False, connClosed = False\<rparr>"

definition main :: "unicode \<Rightarrow> env \<Rightarrow> result" where
  "main U E =
     (let v = verbosity E in
      case resolveTCPAddr E of
        None \<Rightarrow> fatal v ''Could not resolve input address'' [zString ''address'' (serverAddress E)]
      | Some addr \<Rightarrow>
     (case stat E of
        None \<Rightarrow> fatal v ''Could not find input file'' [zString ''file'' (inputFile E)]
      | Some fsize \<Rightarrow>
     (case openFile E of
        None \<Rightarrow> fatal v ''Could not open input file'' [zString ''file'' (inputFile E)]
      | Some input \<Rightarrow>
         let lg = zlog v InfoLevel ''sending gcode file''
                    [zString ''file'' (inputFile E), zString ''address'' (serverAddress E)]
                  @ zlog v DebugLevel ''connecting'' [zString ''address'' addr]
         in case dialTCP E of
           None \<Rightarrow>
             \<lparr>exitStatus = 0,
              logged = lg @ zlog v ErrorLevel ''failed to connect to server''
                              [zString ''address'' addr],
              wire = [], usagePrinted = False, inputClosed = True, connClosed = False\<rparr>
         | Some conn \<Rightarrow>
            (case transfer U E fsize input conn of (lg', out, flushed) \<Rightarrow>
               \<lparr>exitStatus = 0, logged = lg @ lg',
                wire = (if flushed then out else take (onWire E) out),
                usagePrinted = False, inputClosed = True, connClosed = True\<rparr>))))"

text \<open>
  The success signal of a run is the entry of the last line of \<open>main\<close>,
  \<open>zap.L().Info("done")\<close>; a failure is reported by an entry at \<open>Error\<close> or \<open>Fatal\<close>
  level.
\<close>

definition doneLogged :: "entry list \<Rightarrow> bool" where
  "doneLogged lg = ((InfoLevel, ''done'', []) \<in> set lg)"

definition errorLogged :: "entry list \<Rightarrow> bool" where
  "errorLogged lg = list_ex (\<lambda>(l, msg, fs). l = ErrorLevel \<or> l = FatalLevel) lg"

definition reportsSuccess :: "result \<Rightarrow> bool" where
  "reportsSuccess res = doneLogged (logged res)"

definition reportsFailure :: "result \<Rightarrow> bool" where
  "reportsFailure res = errorLogged (logged res)"

text \<open>
  The full sequence of the driver (status read, header, payload, terminator, flush,
  acknowledgement), as a condition on what a run finds on the connection \<open>conn\<close>: the
  status read gives \<open>init\<close>, no operation on the writer fails, and the frame read after
  the flush is \<open>GCODE_ACK\<close>.
\<close>

definition completes :: "unicode \<Rightarrow> env \<Rightarrow> Reader \<Rightarrow> bool" where
  "completes U E conn =
     (case getState U (verbosity E) conn of
        (Inl err, r1, lg) \<Rightarrow> False
      | (Inr state, r1, lg) \<Rightarrow>
          state = ''init'' \<and> headerFault E = None \<and> copyFault E = None
          \<and> terminatorFault E = None \<and> flushFault E = None
          \<and> fst (readMessage (verbosity E) r1) = Inr ''GCODE_ACK'')"

text \<open>
  Closed examples need a value for the Unicode functions. Their inputs are ASCII, on which
  the functions are never called: the examples take the identity for each.
\<close>

definition noTables :: unicode where
  "noTables = \<lparr>mapToUpper = (\<lambda>s. s), mapToLower = (\<lambda>s. s),
               trimFuncSpace = (\<lambda>s. s), trimRightFuncSpace = (\<lambda>s. s)\<rparr>"

text \<open>
  The end-to-end scenarios A, B and C of the specification, as runs: a 10-byte file
  \<open>test.gcode\<close> and a server that sends \<open>STATE: init\<close> and then \<open>GCODE_ACK\<close> (A), that
  sends \<open>STATE: running\<close> (B), that sends \<open>STATE: init\<close> and then \<open>DONE\<close> (C).
\<close>

definition scenarioA :: env where
  "scenarioA =
     \<lparr>verbosity = False, inputFile = ''test.gcode'', serverAddress = ''127.0.0.1'',
      resolveTCPAddr = Some ''127.0.0.1:6280'', stat = Some 10,
      openFile = Some (''G0 X10 Y1'' @ [CHR 0x0A]),
      dialTCP = Some [(''STATE: init'' @ [CHR 0x0A], None), (''GCODE_ACK'' @ [CHR 0x0A], None)],
      headerFault = None, copyFault = None, terminatorFault = None, flushFault = None,
      onWire = 0\<rparr>"

definition scenarioB :: env where
  "scenarioB = scenarioA\<lparr>dialTCP := Some [(''STATE: running'' @ [CHR 0x0A], None)]\<rparr>"

definition scenarioC :: env where
  "scenarioC = scenarioA\<lparr>dialTCP := Some [(''STATE: init'' @ [CHR 0x0A], None), (''DONE'' @ [CHR 0x0A], None)]\<rparr>"

section \<open>Properties of the Message Framer\<close>

lemma scanBuffer_fst:
  "fst (scanBuffer v bs i out) = out @ takeWhile (\<lambda>b. b \<noteq> terminationCharacter) bs"
  by (induction bs arbitrary: i out) simp_all

text \<open>
  What \<open>readMessage\<close> returns, from what its one \<open>Read\<close> returns: the frame is the part
  of the bytes read that comes before the first terminator.
\<close>

lemma readMessage_Read:
  assumes "Read r messageBufferSize = ((d, err), r')"
  shows "fst (readMessage v r) =
           (case err of
              Some e \<Rightarrow> Inl e
            | None \<Rightarrow>
                if messageBufferSize \<le> length (takeWhile (\<lambda>b. b \<noteq> terminationCharacter) d)
                then Inl ErrOversizedMessage
                else Inr (takeWhile (\<lambda>b. b \<noteq> terminationCharacter) d))"
    and "fst (snd (readMessage v r)) = r'"
proof -
  obtain out lg where s: "scanBuffer v d 0 [] = (out, lg)"
    by (cases "scanBuffer v d 0 []")
  have "out = takeWhile (\<lambda>b. b \<noteq> terminationCharacter) d"
    using scanBuffer_fst [of v d 0 "[]"] s by simp
  with assms s show "fst (readMessage v r) =
           (case err of
              Some e \<Rightarrow> Inl e
            | None \<Rightarrow>
                if messageBufferSize \<le> length (takeWhile (\<lambda>b. b \<noteq> terminationCharacter) d)
                then Inl ErrOversizedMessage
                else Inr (takeWhile (\<lambda>b. b \<noteq> terminationCharacter) d))"
    and "fst (snd (readMessage v r)) = r'"
    by (auto simp add: readMessage_def Let_def split: option.splits)
qed

lemma takeWhile_all: "x \<notin> set xs \<Longrightarrow> takeWhile (\<lambda>b. b \<noteq> x) xs = xs"
  by (induction xs) auto

text \<open>
  C4. When one read delivers, without error, a byte sequence \<open>pre\<close> shorter than the 128
  bytes of the buffer and free of the terminator, then the terminator, then any bytes
  \<open>post\<close>, the framer succeeds and returns exactly \<open>pre\<close>: the terminator is discarded and
  \<open>post\<close> is ignored.
\<close>

theorem readMessage_terminated:
  assumes "length pre < messageBufferSize"
    and "terminationCharacter \<notin> set pre"
  shows "fst (readMessage v ((pre @ terminationCharacter # post, None) # rest)) = Inr pre"
proof -
  let ?d = "pre @ terminationCharacter # post"
  let ?t = "\<lambda>b. b \<noteq> terminationCharacter"
  have tw: "\<And>xs. takeWhile ?t (pre @ terminationCharacter # xs) = pre"
    using assms(2) by (subst takeWhile_append2) auto
  obtain d r' where rd: "Read ((?d, None) # rest) messageBufferSize = ((d, None), r')"
    and d: "d = ?d \<or> d = take messageBufferSize ?d"
    by (cases "messageBufferSize < length ?d") simp_all
  have "takeWhile ?t d = pre"
  proof -
    from d show ?thesis
    proof
      assume "d = ?d" then show ?thesis by (simp add: tw)
    next
      assume "d = take messageBufferSize ?d"
      then have "d = pre @ terminationCharacter # take (messageBufferSize - Suc (length pre)) post"
        using assms(1) by (simp add: take_Cons')
      then show ?thesis by (simp add: tw)
    qed
  qed
  with readMessage_Read(1) [OF rd, of v] assms(1) show ?thesis by simp
qed

theorem readMessage_terminated_witness:
  "length ''STATE: init'' < messageBufferSize
   \<and> terminationCharacter \<notin> set ''STATE: init''
   \<and> fst (readMessage False [(''STATE: init'' @ terminationCharacter # ''junk'', None)])
       = Inr ''STATE: init''"
  using readMessage_terminated [where pre = "''STATE: init''" and post = "''junk''"
      and v = False and rest = "[]"]
  by (simp add: messageBufferSize_def terminationCharacter_def)



text \<open>
  C9. When the one read returns \<open>n\<close> bytes, \<open>0 < n < 128\<close>, none of them the terminator,
  the framer returns all \<open>n\<close> bytes as a frame and signals no error, although no
  terminator has been seen: the rest of a message split across reads is left behind.
\<close>

theorem readMessage_short_read:
  assumes "0 < length d" and "length d < messageBufferSize"
    and "terminationCharacter \<notin> set d"
  shows "fst (readMessage v ((d, None) # rest)) = Inr d"
proof -
  have rd: "Read ((d, None) # rest) messageBufferSize = ((d, None), rest)"
    using assms(2) by simp
  have "takeWhile (\<lambda>b. b \<noteq> terminationCharacter) d = d"
    using assms(3) by (rule takeWhile_all)
  with readMessage_Read(1) [OF rd, of v] assms(2) show ?thesis by simp
qed

theorem readMessage_short_read_witness:
  "0 < length ''STATE: in'' \<and> length ''STATE: in'' < messageBufferSize
   \<and> terminationCharacter \<notin> set ''STATE: in''
   \<and> fst (readMessage False [(''STATE: in'', None), (''it'' @ [terminationCharacter], None)])
       = Inr ''STATE: in''"
  using readMessage_short_read [where d = "''STATE: in''" and v = False
      and rest = "[(''it'' @ [terminationCharacter], None)]"]
  by (simp add: messageBufferSize_def terminationCharacter_def)

text \<open>
  C10. Every frame that the framer returns is shorter than the 128 bytes of the buffer.
\<close>

theorem readMessage_length:
  assumes "fst (readMessage v r) = Inr s"
  shows "length s < messageBufferSize"
proof -
  obtain d err r' where rd: "Read r messageBufferSize = ((d, err), r')"
    by (metis surj_pair)
  from readMessage_Read(1) [OF rd, of v] assms show ?thesis
    by (auto split: option.splits if_splits)
qed

theorem readMessage_length_witness:
  "fst (readMessage False [(''GCODE_ACK'' @ [terminationCharacter], None)]) = Inr ''GCODE_ACK''
   \<and> length ''GCODE_ACK'' < messageBufferSize"
  using readMessage_length [where v = False and s = "''GCODE_ACK''"
      and r = "[(''GCODE_ACK'' @ [terminationCharacter], None)]"]
  by (simp add: readMessage_def messageBufferSize_def terminationCharacter_def zlog_def)

section \<open>Properties of the Status Parser\<close>

text \<open>The definitions that \<open>simp\<close> unfolds to run the program on a concrete input.\<close>

lemmas evaluation = main_def transfer_def getState_def readMessage_def messageBufferSize_def
  terminationCharacter_def zlog_def ToUpper_def ToLower_def TrimSpace_def isASCII_def
  isLowerByte_def isUpperByte_def upperByte_def lowerByte_def asciiSpace_def showInt_def
  showNat.simps char_of_eq_iff reportsSuccess_def reportsFailure_def doneLogged_def
  errorLogged_def fatal_def noTables_def completes_def

lemma Split_not_Nil: "Split s sep \<noteq> []"
  by (induction s) (auto split: list.splits)

lemma Split_no_sep: "sep \<notin> set s \<Longrightarrow> Split s sep = [s]"
  by (induction s) auto

lemma Split_at_sep: "sep \<notin> set a \<Longrightarrow> Split (a @ sep # b) sep = a # Split b sep"
  by (induction a) auto

lemma length_Split: "length (Split s sep) = Suc (count_list s sep)"
  by (induction s) (auto simp: Split_not_Nil split: list.splits)

lemma getState_readMessage:
  assumes "fst (readMessage v r) = Inr statusLine"
  shows "fst (getState U v r) =
           (if length (Split statusLine (CHR '' '')) \<noteq> 2 then Inl ErrInvalidStatusMessage
            else if ToUpper U (Split statusLine (CHR '' '') ! 0) \<noteq> ''STATE:''
            then Inl ErrInvalidStatusMessage
            else Inr (ToLower U (TrimSpace U (Split statusLine (CHR '' '') ! 1))))"
    and "fst (snd (getState U v r)) = fst (snd (readMessage v r))"
  using assms by (cases "readMessage v r"; simp add: getState_def Let_def)+

lemma getState_readMessage_error:
  assumes "fst (readMessage v r) = Inl e"
  shows "getState U v r = (Inl e, snd (readMessage v r))"
  using assms by (cases "readMessage v r") (simp add: getState_def)

lemma isLowerByte_isASCII: "isLowerByte c \<Longrightarrow> isASCII c"
  by (simp add: isLowerByte_def isASCII_def)

lemma isUpperByte_isASCII: "isUpperByte c \<Longrightarrow> isASCII c"
  by (simp add: isUpperByte_def isASCII_def)

lemma map_upperByte_id: "\<not> list_ex isLowerByte s \<Longrightarrow> map upperByte s = s"
  by (induction s) (auto simp: upperByte_def)

lemma map_lowerByte_id: "\<not> list_ex isUpperByte s \<Longrightarrow> map lowerByte s = s"
  by (induction s) (auto simp: lowerByte_def)

lemma ToUpper_ASCII: "list_all isASCII s \<Longrightarrow> ToUpper U s = map upperByte s"
  by (simp add: ToUpper_def map_upperByte_id)

lemma ToLower_ASCII: "list_all isASCII s \<Longrightarrow> ToLower U s = map lowerByte s"
  by (simp add: ToLower_def map_lowerByte_id)

lemma upperByte_key:
  assumes "upperByte c \<in> set ''STATE:''"
  shows "isASCII c \<and> c \<noteq> CHR '' ''"
proof (cases "isLowerByte c")
  case True
  then show ?thesis
    by (auto simp: isLowerByte_isASCII isLowerByte_def)
next
  case False
  with assms have "c \<in> set ''STATE:''" by (simp add: upperByte_def)
  then show ?thesis by (auto simp: isASCII_def)
qed

lemma key_ASCII:
  assumes "map upperByte key = ''STATE:''"
  shows "list_all isASCII key" and "CHR '' '' \<notin> set key"
proof -
  have "\<And>c. c \<in> set key \<Longrightarrow> upperByte c \<in> set ''STATE:''"
  proof -
    fix c assume "c \<in> set key"
    then have "upperByte c \<in> set (map upperByte key)" by simp
    then show "upperByte c \<in> set ''STATE:''" by (simp only: assms)
  qed
  then have "\<And>c. c \<in> set key \<Longrightarrow> isASCII c \<and> c \<noteq> CHR '' ''"
    by (rule upperByte_key)
  then show "list_all isASCII key" and "CHR '' '' \<notin> set key"
    by (auto simp: list_all_iff)
qed

lemma asciiSpace_isASCII: "asciiSpace c \<Longrightarrow> isASCII c"
  by (auto simp: asciiSpace_def isASCII_def)

lemma skipSpace_spaces: "list_all asciiSpace ws \<Longrightarrow> skipSpace (ws @ s) = skipSpace s"
  by (induction ws) (auto simp: asciiSpace_isASCII)

lemma skipSpace_stop:
  "s \<noteq> [] \<Longrightarrow> isASCII (hd s) \<Longrightarrow> \<not> asciiSpace (hd s) \<Longrightarrow> skipSpace s = Skipped s"
  by (cases s) auto

lemma TrimSpace_ends:
  assumes "list_all asciiSpace lead" and "list_all asciiSpace trail"
    and "tok \<noteq> [] \<longrightarrow> isASCII (hd tok) \<and> \<not> asciiSpace (hd tok)
                     \<and> isASCII (last tok) \<and> \<not> asciiSpace (last tok)"
  shows "TrimSpace U (lead @ tok @ trail) = tok"
proof (cases "tok = []")
  case True
  have "skipSpace (lead @ trail) = Skipped []"
    using skipSpace_spaces [of "lead @ trail" "[]"] assms(1,2) by simp
  with True show ?thesis by (simp add: TrimSpace_def)
next
  case False
  with assms(3) have h: "isASCII (hd tok)" "\<not> asciiSpace (hd tok)"
    and l: "isASCII (last tok)" "\<not> asciiSpace (last tok)" by simp_all
  have "skipSpace (lead @ tok @ trail) = skipSpace (tok @ trail)"
    using assms(1) by (rule skipSpace_spaces)
  also have "\<dots> = Skipped (tok @ trail)"
    using False h by (intro skipSpace_stop) simp_all
  finally have front: "skipSpace (lead @ tok @ trail) = Skipped (tok @ trail)" .
  have "skipSpace (rev (tok @ trail)) = skipSpace (rev tok)"
    using assms(2) skipSpace_spaces [of "rev trail" "rev tok"] by simp
  also have "\<dots> = Skipped (rev tok)"
    using False l by (intro skipSpace_stop) (simp_all add: hd_rev)
  finally have "skipSpace (rev (tok @ trail)) = Skipped (rev tok)" .
  with front show ?thesis by (simp add: TrimSpace_def)
qed

text \<open>
  C3, for whitespace other than the space character. Let the framer deliver a status line made of a key that is \<open>STATE:\<close> up to
  the case of its ASCII letters, one space, and a token surrounded by whitespace
  \<open>lead\<close> and \<open>trail\<close> other than the space character (tab, line feed, vertical tab,
  form feed, carriage return), where the token holds no space character and, unless it is
  empty, begins and ends with an ASCII byte that is not whitespace. Then the parser
  succeeds and returns the token lower-cased, with \<open>lead\<close> and \<open>trail\<close> trimmed off;
  on a token of ASCII bytes, lower-casing is byte by byte.
\<close>

theorem getState_status_line:
  assumes "fst (readMessage v r) = Inr (key @ '' '' @ lead @ tok @ trail)"
    and "map upperByte key = ''STATE:''"
    and "list_all (\<lambda>c. asciiSpace c \<and> c \<noteq> CHR '' '') (lead @ trail)"
    and "CHR '' '' \<notin> set tok"
    and "tok \<noteq> [] \<longrightarrow> isASCII (hd tok) \<and> \<not> asciiSpace (hd tok)
                     \<and> isASCII (last tok) \<and> \<not> asciiSpace (last tok)"
  shows "fst (getState U v r) = Inr (ToLower U tok)
       \<and> (list_all isASCII tok \<longrightarrow> ToLower U tok = map lowerByte tok)"
proof -
  have ws: "list_all asciiSpace lead" "list_all asciiSpace trail"
    and nosp: "CHR '' '' \<notin> set (lead @ tok @ trail)"
    using assms(3,4) by (auto simp: list_all_iff)
  have "Split (key @ CHR '' '' # (lead @ tok @ trail)) (CHR '' '') = [key, lead @ tok @ trail]"
    using key_ASCII(2) [OF assms(2)] nosp
    by (simp add: Split_at_sep Split_no_sep)
  then have sp: "Split (key @ '' '' @ lead @ tok @ trail) (CHR '' '') = [key, lead @ tok @ trail]"
    by simp
  have up: "ToUpper U key = ''STATE:''"
    using key_ASCII(1) [OF assms(2)] assms(2) by (simp only: ToUpper_ASCII)
  have tr: "TrimSpace U (lead @ tok @ trail) = tok"
    using ws assms(5) by (rule TrimSpace_ends)
  have "fst (getState U v r) = Inr (ToLower U tok)"
    using getState_readMessage(1) [OF assms(1), of U] by (simp only: sp) (simp add: up tr)
  then show ?thesis by (simp add: ToLower_ASCII)
qed

theorem getState_status_line_witness:
  "fst (readMessage False [(''sTaTe:'' @ '' '' @ [CHR 0x09] @ ''InIt'' @ [CHR 0x0D] @ [CHR 0x0A], None)])
     = Inr (''sTaTe:'' @ '' '' @ [CHR 0x09] @ ''InIt'' @ [CHR 0x0D])
   \<and> map upperByte ''sTaTe:'' = ''STATE:''
   \<and> list_all (\<lambda>c. asciiSpace c \<and> c \<noteq> CHR '' '') ([CHR 0x09] @ [CHR 0x0D])
   \<and> CHR '' '' \<notin> set ''InIt''
   \<and> isASCII (hd ''InIt'') \<and> \<not> asciiSpace (hd ''InIt'')
   \<and> isASCII (last ''InIt'') \<and> \<not> asciiSpace (last ''InIt'')
   \<and> list_all isASCII ''InIt''
   \<and> fst (getState noTables False
             [(''sTaTe:'' @ '' '' @ [CHR 0x09] @ ''InIt'' @ [CHR 0x0D] @ [CHR 0x0A], None)])
       = Inr ''init''"
  using getState_status_line [where v = False and U = noTables and key = "''sTaTe:''"
      and lead = "[CHR 0x09]" and tok = "''InIt''" and trail = "[CHR 0x0D]"
      and r = "[(''sTaTe:'' @ '' '' @ [CHR 0x09] @ ''InIt'' @ [CHR 0x0D] @ [CHR 0x0A], None)]"]
  by (simp add: evaluation)

text \<open>
  C3 does not extend to the space character as whitespace around the token: the line
  \<open>STATE: init\<close> followed by one space splits into three tokens and is rejected.
\<close>

theorem getState_trailing_space_counterexample:
  "fst (readMessage False [(''STATE: init '' @ [CHR 0x0A], None)]) = Inr ''STATE: init ''
   \<and> fst (getState noTables False [(''STATE: init '' @ [CHR 0x0A], None)])
       = Inl ErrInvalidStatusMessage"
  by (simp add: evaluation)

text \<open>
  C6. A status line that does not split at the space character into exactly two tokens,
  or whose first token, upper-cased, is not \<open>STATE:\<close>, makes the parser fail with the
  invalid-status-message error.
\<close>

theorem getState_invalid:
  assumes "fst (readMessage v r) = Inr statusLine"
    and "length (Split statusLine (CHR '' '')) \<noteq> 2
         \<or> ToUpper U (hd (Split statusLine (CHR '' ''))) \<noteq> ''STATE:''"
  shows "fst (getState U v r) = Inl ErrInvalidStatusMessage"
  using getState_readMessage(1) [OF assms(1), of U] assms(2)
  by (cases "Split statusLine (CHR '' '')") auto

theorem getState_invalid_witness:
  "fst (readMessage False [(''STATUS: init'' @ [CHR 0x0A], None)]) = Inr ''STATUS: init''
   \<and> Split ''STATUS: init'' (CHR '' '') = [''STATUS:'', ''init'']
   \<and> ToUpper noTables (hd (Split ''STATUS: init'' (CHR '' ''))) \<noteq> ''STATE:''
   \<and> fst (getState noTables False [(''STATUS: init'' @ [CHR 0x0A], None)])
       = Inl ErrInvalidStatusMessage"
  using getState_invalid [where v = False and U = noTables and statusLine = "''STATUS: init''"
      and r = "[(''STATUS: init'' @ [CHR 0x0A], None)]"]
  by (simp add: evaluation)

section \<open>Properties of the Transfer Protocol Driver\<close>

lemma doneLogged_append [simp]: "doneLogged (a @ b) = (doneLogged a \<or> doneLogged b)"
  by (auto simp: doneLogged_def)

lemma errorLogged_append [simp]: "errorLogged (a @ b) = (errorLogged a \<or> errorLogged b)"
  by (auto simp: errorLogged_def list_ex_iff)

lemma doneLogged_zlog:
  "doneLogged (zlog v l msg fs) = (l = InfoLevel \<and> msg = ''done'' \<and> fs = [])"
  by (auto simp: doneLogged_def zlog_def)

lemma errorLogged_zlog:
  "errorLogged (zlog v l msg fs) = (l = ErrorLevel \<or> l = FatalLevel)"
  by (auto simp: errorLogged_def zlog_def)

lemma scanBuffer_log:
  "\<not> doneLogged (snd (scanBuffer v bs i out))" "\<not> errorLogged (snd (scanBuffer v bs i out))"
  by (induction bs arbitrary: i out) (simp_all add: doneLogged_zlog errorLogged_zlog, simp_all add: doneLogged_def errorLogged_def)

lemma readMessage_log:
  "\<not> doneLogged (snd (snd (readMessage v r)))"
  "errorLogged (snd (snd (readMessage v r))) \<longleftrightarrow> (\<exists>e. fst (readMessage v r) = Inl e)"
proof -
  obtain d err r' where rd: "Read r messageBufferSize = ((d, err), r')"
    by (metis surj_pair)
  obtain out lg where s: "scanBuffer v d 0 [] = (out, lg)"
    by (cases "scanBuffer v d 0 []")
  have lg: "\<not> doneLogged lg" "\<not> errorLogged lg"
    using scanBuffer_log [of v d 0 "[]"] s by simp_all
  show "\<not> doneLogged (snd (snd (readMessage v r)))"
    using rd s lg
    by (auto simp: readMessage_def Let_def doneLogged_zlog split: option.splits)
  show "errorLogged (snd (snd (readMessage v r))) \<longleftrightarrow> (\<exists>e. fst (readMessage v r) = Inl e)"
    using rd s lg
    by (auto simp: readMessage_def Let_def errorLogged_zlog split: option.splits)
qed

lemma getState_log:
  "\<not> doneLogged (snd (snd (getState U v r)))"
  "errorLogged (snd (snd (getState U v r))) \<longleftrightarrow> (\<exists>e. fst (getState U v r) = Inl e)"
proof -
  obtain res r' lg where rm: "readMessage v r = (res, r', lg)"
    by (metis surj_pair)
  have lg: "\<not> doneLogged lg" "errorLogged lg \<longleftrightarrow> (\<exists>e. res = Inl e)"
    using readMessage_log [of v r] rm by simp_all
  show "\<not> doneLogged (snd (snd (getState U v r)))"
    using rm lg
    by (cases res) (auto simp: getState_def Let_def doneLogged_zlog)
  show "errorLogged (snd (snd (getState U v r))) \<longleftrightarrow> (\<exists>e. fst (getState U v r) = Inl e)"
    using rm lg
    by (cases res) (auto simp: getState_def Let_def errorLogged_zlog)
qed

lemma transfer_summary:
  assumes "transfer U E fsize input r = (lg, out, flushed)"
  shows "doneLogged lg \<longleftrightarrow> completes U E r"
    and "errorLogged lg \<longleftrightarrow> \<not> completes U E r"
    and "completes U E r \<Longrightarrow> flushed \<and> out = ''GCODE: '' @ inputFile E @ '':'' @ showInt fsize @ [CHR 0x0A] @ input @ [terminationCharacter]"
proof -
  obtain st r1 lg1 where gs: "getState U (verbosity E) r = (st, r1, lg1)"
    by (metis surj_pair)
  obtain ack r2 lg2 where rm: "readMessage (verbosity E) r1 = (ack, r2, lg2)"
    by (metis surj_pair)
  have l1: "\<not> doneLogged lg1" "errorLogged lg1 \<longleftrightarrow> (\<exists>e. st = Inl e)"
    using getState_log [of U "verbosity E" r] gs by simp_all
  have l2: "\<not> doneLogged lg2" "errorLogged lg2 \<longleftrightarrow> (\<exists>e. ack = Inl e)"
    using readMessage_log [of "verbosity E" r1] rm by simp_all
  show "doneLogged lg \<longleftrightarrow> completes U E r"
    using assms gs rm l1 l2
    by (cases st; cases ack)
       (auto simp: transfer_def completes_def Let_def doneLogged_zlog split: option.splits if_splits)
  show "errorLogged lg \<longleftrightarrow> \<not> completes U E r"
    using assms gs rm l1 l2
    by (cases st; cases ack)
       (auto simp: transfer_def completes_def Let_def errorLogged_zlog split: option.splits if_splits)
  show "flushed \<and> out = ''GCODE: '' @ inputFile E @ '':'' @ showInt fsize @ [CHR 0x0A] @ input @ [terminationCharacter]"
    if "completes U E r"
    using that assms gs rm
    by (cases st; cases ack)
       (auto simp: transfer_def completes_def Let_def split: option.splits if_splits)
qed

lemma main_connected:
  assumes "resolveTCPAddr E = Some addr" and "stat E = Some fsize" and "openFile E = Some input"
    and "dialTCP E = Some conn"
  shows "exitStatus (main U E) = 0"
    and "reportsSuccess (main U E) = doneLogged (fst (transfer U E fsize input conn))"
    and "reportsFailure (main U E) = errorLogged (fst (transfer U E fsize input conn))"
    and "wire (main U E) =
           (if snd (snd (transfer U E fsize input conn))
            then fst (snd (transfer U E fsize input conn))
            else take (onWire E) (fst (snd (transfer U E fsize input conn))))"
  using assms
  by (auto simp: main_def Let_def reportsSuccess_def reportsFailure_def doneLogged_zlog
        errorLogged_zlog split: prod.splits)

lemma main_not_connected:
  assumes "resolveTCPAddr E = Some addr" and "stat E = Some fsize" and "openFile E = Some input"
    and "dialTCP E = None"
  shows "exitStatus (main U E) = 0" and "\<not> reportsSuccess (main U E)"
    and "reportsFailure (main U E)" and "wire (main U E) = []"
  using assms
  by (auto simp: main_def Let_def reportsSuccess_def reportsFailure_def doneLogged_zlog
        errorLogged_zlog)

lemma transfer_no_state:
  assumes "fst (getState U (verbosity E) r) \<noteq> Inr ''init''"
  shows "snd (transfer U E fsize input r) = ([], False)"
  using assms
  by (cases "getState U (verbosity E) r"; cases "fst (getState U (verbosity E) r)")
     (auto simp: transfer_def Let_def)

lemma transfer_flushed:
  assumes "fst (getState U (verbosity E) r) = Inr ''init''"
    and "headerFault E = None" and "copyFault E = None"
    and "terminatorFault E = None" and "flushFault E = None"
  shows "snd (transfer U E fsize input r) =
           (''GCODE: '' @ inputFile E @ '':'' @ showInt fsize @ [CHR 0x0A] @ input
              @ [terminationCharacter], True)"
proof -
  obtain r1 lg1 where gs: "getState U (verbosity E) r = (Inr ''init'', r1, lg1)"
    using assms(1) by (cases "getState U (verbosity E) r") auto
  obtain ack r2 lg2 where rm: "readMessage (verbosity E) r1 = (ack, r2, lg2)"
    by (metis surj_pair)
  show ?thesis
    using gs rm assms(2-5)
    by (cases ack) (auto simp: transfer_def Let_def)
qed

text \<open>
  C1, with the size as \<open>os.Stat\<close> reported it. Scenario A: the server delivers the frame
  \<open>STATE: init\<close> to the first read and, to the read that follows the flush, the frame
  \<open>GCODE_ACK\<close>, and no write fails. Then the driver reports success, and the bytes
  written to the connection are the header line \<open>GCODE: <path>:<size>\<close> with its line
  feed, where \<open><size>\<close> is the size that \<open>os.Stat\<close> reported, then every byte that the
  file yields when it is read to its end, unchanged, then one line feed. The program never
  compares the two: the payload has \<open><size>\<close> bytes when the file is as long as
  \<open>os.Stat\<close> said, and only then.
\<close>

theorem main_scenario_A:
  assumes "resolveTCPAddr E = Some addr" and "stat E = Some fsize"
    and "openFile E = Some payload"
    and "dialTCP E = Some ((''STATE: init'' @ [terminationCharacter], None)
                           # (''GCODE_ACK'' @ [terminationCharacter], None) # rest)"
    and "headerFault E = None" and "copyFault E = None"
    and "terminatorFault E = None" and "flushFault E = None"
  shows "exitStatus (main U E) = 0 \<and> reportsSuccess (main U E) \<and> \<not> reportsFailure (main U E)
       \<and> wire (main U E) = ''GCODE: '' @ inputFile E @ '':'' @ showInt fsize
                              @ [terminationCharacter] @ payload @ [terminationCharacter]"
proof -
  let ?conn = "(''STATE: init'' @ [terminationCharacter], None)
               # (''GCODE_ACK'' @ [terminationCharacter], None) # rest"
  let ?r1 = "(''GCODE_ACK'' @ [terminationCharacter], None) # rest"
  have gs: "fst (getState U (verbosity E) ?conn) = Inr ''init''"
    and gr: "fst (snd (getState U (verbosity E) ?conn)) = ?r1"
    by (simp_all add: getState_def readMessage_def messageBufferSize_def
        terminationCharacter_def ToUpper_def ToLower_def TrimSpace_def isASCII_def
        isLowerByte_def isUpperByte_def upperByte_def lowerByte_def asciiSpace_def char_of_eq_iff)
  have ack: "fst (readMessage (verbosity E) ?r1) = Inr ''GCODE_ACK''"
    by (simp add: readMessage_def messageBufferSize_def terminationCharacter_def)
  have c: "completes U E ?conn"
    using gs gr ack assms(5-8)
    by (cases "getState U (verbosity E) ?conn") (simp add: completes_def)
  obtain lg out flushed where t: "transfer U E fsize payload ?conn = (lg, out, flushed)"
    by (metis surj_pair)
  show ?thesis
    using main_connected [OF assms(1-4), of U] transfer_summary [OF t] c t
    by (simp add: terminationCharacter_def)
qed

theorem main_scenario_A_witness:
  "resolveTCPAddr scenarioA = Some ''127.0.0.1:6280''
   \<and> stat scenarioA = Some 10
   \<and> openFile scenarioA = Some (''G0 X10 Y1'' @ [CHR 0x0A])
   \<and> dialTCP scenarioA = Some ((''STATE: init'' @ [terminationCharacter], None)
                           # (''GCODE_ACK'' @ [terminationCharacter], None) # [])
   \<and> headerFault scenarioA = None \<and> copyFault scenarioA = None
   \<and> terminatorFault scenarioA = None \<and> flushFault scenarioA = None
   \<and> exitStatus (main noTables scenarioA) = 0
   \<and> reportsSuccess (main noTables scenarioA) \<and> \<not> reportsFailure (main noTables scenarioA)
   \<and> wire (main noTables scenarioA)
       = ''GCODE: test.gcode:10'' @ [CHR 0x0A] @ ''G0 X10 Y1'' @ [CHR 0x0A] @ [CHR 0x0A]"
  using main_scenario_A [where E = scenarioA and U = noTables and addr = "''127.0.0.1:6280''"
      and fsize = 10 and payload = "''G0 X10 Y1'' @ [CHR 0x0A]" and rest = "[]"]
  by (simp add: scenarioA_def evaluation)

text \<open>
  C1 does not hold of the number of payload bytes: when \<open>os.Stat\<close> reports size 0 for a
  file that yields 10 bytes, the server of scenario A still makes the run report success,
  with a header that announces 0 bytes and 10 payload bytes after it.
\<close>

theorem main_size_mismatch_counterexample:
  "reportsSuccess (main noTables (scenarioA\<lparr>stat := Some 0\<rparr>))
   \<and> wire (main noTables (scenarioA\<lparr>stat := Some 0\<rparr>))
       = ''GCODE: test.gcode:0'' @ [CHR 0x0A] @ ''G0 X10 Y1'' @ [CHR 0x0A] @ [CHR 0x0A]
   \<and> int (length (''G0 X10 Y1'' @ [CHR 0x0A])) \<noteq> 0"
  by (simp add: scenarioA_def evaluation)

text \<open>
  C2, with the log as the completion signal. Every run of the driver that gets as far as dialling returns from \<open>main\<close>,
  so that the process ends with exit status 0 whether the transfer failed or not, and there
  is no partial success: the run logs \<open>done\<close> exactly when the connection was made and the
  full sequence (status read, header, payload, terminator, flush, acknowledgement)
  completed, and then header, payload and terminator are all on the wire; every other run
  logs an entry at error level and never \<open>done\<close>.
\<close>

theorem main_all_or_nothing:
  assumes "resolveTCPAddr E = Some addr" and "stat E = Some fsize" and "openFile E = Some input"
  shows "exitStatus (main U E) = 0
       \<and> (reportsSuccess (main U E)
            \<longleftrightarrow> (case dialTCP E of None \<Rightarrow> False | Some conn \<Rightarrow> completes U E conn))
       \<and> (reportsFailure (main U E) \<longleftrightarrow> \<not> reportsSuccess (main U E))
       \<and> (reportsSuccess (main U E) \<longrightarrow>
            wire (main U E) = ''GCODE: '' @ inputFile E @ '':'' @ showInt fsize @ [CHR 0x0A]
                                @ input @ [terminationCharacter])"
proof (cases "dialTCP E")
  case None
  with main_not_connected [OF assms, of U] show ?thesis by simp
next
  case (Some conn)
  obtain lg out flushed where t: "transfer U E fsize input conn = (lg, out, flushed)"
    by (metis surj_pair)
  note m = main_connected [OF assms Some, of U]
  note s = transfer_summary [OF t]
  show ?thesis
    using Some m s t by auto
qed

theorem main_all_or_nothing_witness:
  "resolveTCPAddr scenarioA = Some ''127.0.0.1:6280'' \<and> stat scenarioA = Some 10
   \<and> openFile scenarioA = Some (''G0 X10 Y1'' @ [CHR 0x0A])
   \<and> exitStatus (main noTables scenarioA) = 0
   \<and> completes noTables scenarioA
         [(''STATE: init'' @ [CHR 0x0A], None), (''GCODE_ACK'' @ [CHR 0x0A], None)]
   \<and> reportsSuccess (main noTables scenarioA)
   \<and> \<not> reportsFailure (main noTables scenarioA)
   \<and> wire (main noTables scenarioA)
       = ''GCODE: test.gcode:10'' @ [CHR 0x0A] @ ''G0 X10 Y1'' @ [CHR 0x0A] @ [CHR 0x0A]"
  using main_all_or_nothing [where E = scenarioA and U = noTables and addr = "''127.0.0.1:6280''"
      and fsize = 10 and input = "''G0 X10 Y1'' @ [CHR 0x0A]"]
  by (simp add: scenarioA_def evaluation)

text \<open>
  C2 does not hold of the exit status: in scenario B the run fails, and reports it in the
  log, but the process ends with exit status 0.
\<close>

theorem main_failure_exit_status_counterexample:
  "reportsFailure (main noTables scenarioB) \<and> \<not> reportsSuccess (main noTables scenarioB)
   \<and> exitStatus (main noTables scenarioB) = 0"
  by (simp add: scenarioB_def scenarioA_def evaluation)

text \<open>
  C7. When the status read yields a state other than \<open>init\<close>, the driver hands no byte to
  the writer and no byte reaches the connection, neither header nor payload nor
  terminator; the run reports failure.
\<close>

theorem main_not_init:
  assumes "resolveTCPAddr E = Some addr" and "stat E = Some fsize" and "openFile E = Some input"
    and "dialTCP E = Some conn"
    and "fst (getState U (verbosity E) conn) = Inr state" and "state \<noteq> ''init''"
  shows "fst (snd (transfer U E fsize input conn)) = [] \<and> wire (main U E) = []
       \<and> reportsFailure (main U E) \<and> \<not> reportsSuccess (main U E)"
proof -
  have ns: "fst (getState U (verbosity E) conn) \<noteq> Inr ''init''"
    using assms(5,6) by simp
  have nc: "\<not> completes U E conn"
    using ns by (cases "getState U (verbosity E) conn") (auto simp: completes_def split: sum.splits)
  obtain lg out flushed where t: "transfer U E fsize input conn = (lg, out, flushed)"
    by (metis surj_pair)
  show ?thesis
    using main_connected [OF assms(1-4), of U] transfer_no_state [OF ns, of fsize input]
      transfer_summary(1,2) [OF t] nc t
    by simp
qed

theorem main_not_init_witness:
  "resolveTCPAddr scenarioB = Some ''127.0.0.1:6280'' \<and> stat scenarioB = Some 10
   \<and> openFile scenarioB = Some (''G0 X10 Y1'' @ [CHR 0x0A])
   \<and> dialTCP scenarioB = Some [(''STATE: running'' @ [CHR 0x0A], None)]
   \<and> fst (getState noTables (verbosity scenarioB) [(''STATE: running'' @ [CHR 0x0A], None)])
       = Inr ''running''
   \<and> ''running'' \<noteq> ''init''
   \<and> wire (main noTables (scenarioB\<lparr>onWire := 1000\<rparr>)) = []
   \<and> reportsFailure (main noTables (scenarioB\<lparr>onWire := 1000\<rparr>))
   \<and> \<not> reportsSuccess (main noTables (scenarioB\<lparr>onWire := 1000\<rparr>))"
  using main_not_init [where E = "scenarioB\<lparr>onWire := 1000\<rparr>" and U = noTables
      and addr = "''127.0.0.1:6280''" and fsize = 10 and input = "''G0 X10 Y1'' @ [CHR 0x0A]"
      and conn = "[(''STATE: running'' @ [CHR 0x0A], None)]" and state = "''running''"]
  by (simp add: scenarioB_def scenarioA_def evaluation)

text \<open>
  C8. When the status read has yielded \<open>init\<close> and header, payload and terminator have
  been written and flushed without error, the run reports success if and only if the frame
  then read is \<open>GCODE_ACK\<close>; with any other outcome of that read it reports failure,
  although header, payload and terminator are on the wire, where they stand once.
\<close>

theorem main_ack:
  assumes "resolveTCPAddr E = Some addr" and "stat E = Some fsize" and "openFile E = Some input"
    and "dialTCP E = Some conn"
    and "getState U (verbosity E) conn = (Inr ''init'', r1, lg1)"
    and "headerFault E = None" and "copyFault E = None"
    and "terminatorFault E = None" and "flushFault E = None"
  shows "(reportsSuccess (main U E) \<longleftrightarrow> fst (readMessage (verbosity E) r1) = Inr ''GCODE_ACK'')
       \<and> (reportsFailure (main U E) \<longleftrightarrow> fst (readMessage (verbosity E) r1) \<noteq> Inr ''GCODE_ACK'')
       \<and> wire (main U E) = ''GCODE: '' @ inputFile E @ '':'' @ showInt fsize @ [CHR 0x0A]
                              @ input @ [terminationCharacter]"
proof -
  have c: "completes U E conn \<longleftrightarrow> fst (readMessage (verbosity E) r1) = Inr ''GCODE_ACK''"
    using assms(5-9) by (simp add: completes_def)
  have i: "fst (getState U (verbosity E) conn) = Inr ''init''"
    using assms(5) by simp
  obtain lg out flushed where t: "transfer U E fsize input conn = (lg, out, flushed)"
    by (metis surj_pair)
  show ?thesis
    using main_connected [OF assms(1-4), of U] transfer_flushed [OF i assms(6-9), of fsize input]
      transfer_summary(1,2) [OF t] c t
    by simp
qed

theorem main_ack_witness:
  "resolveTCPAddr scenarioC = Some ''127.0.0.1:6280'' \<and> stat scenarioC = Some 10
   \<and> openFile scenarioC = Some (''G0 X10 Y1'' @ [CHR 0x0A])
   \<and> dialTCP scenarioC = Some [(''STATE: init'' @ [CHR 0x0A], None), (''DONE'' @ [CHR 0x0A], None)]
   \<and> getState noTables (verbosity scenarioC)
        [(''STATE: init'' @ [CHR 0x0A], None), (''DONE'' @ [CHR 0x0A], None)]
       = (Inr ''init'', [(''DONE'' @ [CHR 0x0A], None)], [])
   \<and> headerFault scenarioC = None \<and> copyFault scenarioC = None
   \<and> terminatorFault scenarioC = None \<and> flushFault scenarioC = None
   \<and> fst (readMessage (verbosity scenarioC) [(''DONE'' @ [CHR 0x0A], None)]) = Inr ''DONE''
   \<and> \<not> reportsSuccess (main noTables scenarioC)
   \<and> reportsFailure (main noTables scenarioC)
   \<and> wire (main noTables scenarioC)
       = ''GCODE: test.gcode:10'' @ [CHR 0x0A] @ ''G0 X10 Y1'' @ [CHR 0x0A] @ [CHR 0x0A]"
  using main_ack [where E = scenarioC and U = noTables
      and addr = "''127.0.0.1:6280''" and fsize = 10 and input = "''G0 X10 Y1'' @ [CHR 0x0A]"
      and conn = "[(''STATE: init'' @ [CHR 0x0A], None), (''DONE'' @ [CHR 0x0A], None)]"
      and ?r1.0 = "[(''DONE'' @ [CHR 0x0A], None)]" and ?lg1.0 = "[]"]
  by (simp add: scenarioC_def scenarioA_def evaluation)

end
